theory Spec2Isabelle
  imports Main
begin

section \<open>Access key validation for chat endpoints (backend/access.py)\<close>

text \<open>
  The module has three functions: \<^verbatim>\<open>_get_access_key_path\<close> reads one environment
  variable, \<^verbatim>\<open>_load_access_key\<close> reads and decodes the JSON file behind
  \<^verbatim>\<open>functools.lru_cache(maxsize=1)\<close>, and \<^verbatim>\<open>validate_access_key\<close> compares a
  caller's key with the loaded one. Exceptions are values of a sum type, the memo of
  \<^verbatim>\<open>lru_cache\<close> is passed and returned explicitly, and every call to the operating
  system or to \<^verbatim>\<open>json.loads\<close> is recorded in a list of events, in program order.
\<close>

subsection \<open>Python values\<close>

text \<open>
  What \<^verbatim>\<open>json.loads\<close> can return: \<^verbatim>\<open>None\<close>, \<^verbatim>\<open>bool\<close>, \<^verbatim>\<open>int\<close>, \<^verbatim>\<open>float\<close>,
  \<^verbatim>\<open>str\<close>, \<^verbatim>\<open>list\<close> and \<^verbatim>\<open>dict\<close> with string keys. A finite float is
  \<open>m * 2 ^ e\<close>; only whether it is zero matters below. A dict is the association list of
  its items; \<open>map_of\<close> is the lookup.
\<close>

datatype pyfloat = Finite int int | Infinity | NegInfinity | NaN

datatype pyval =
    PyNone
  | PyBool bool
  | PyInt int
  | PyFloat pyfloat
  | PyStr string
  | PyList "pyval list"
  | PyDict "(string \<times> pyval) list"

text \<open>Truth value testing, as \<^verbatim>\<open>if not key\<close> does it.\<close>

fun truthy :: "pyval \<Rightarrow> bool" where
  "truthy PyNone = False"
| "truthy (PyBool b) = b"
| "truthy (PyInt i) = (i \<noteq> 0)"
| "truthy (PyFloat f) = (case f of Finite m e \<Rightarrow> m \<noteq> 0 | _ \<Rightarrow> True)"
| "truthy (PyStr s) = (s \<noteq> [])"
| "truthy (PyList xs) = (xs \<noteq> [])"
| "truthy (PyDict kvs) = (kvs \<noteq> [])"

subsection \<open>Exceptions\<close>

text \<open>
  \<open>HTTPException\<close> is FastAPI's, with its \<^verbatim>\<open>status_code\<close> and \<^verbatim>\<open>detail\<close>. The others
  are the built-in exceptions the calls of this module can raise: \<open>JSONDecodeError\<close> and
  \<open>RecursionError\<close> from \<^verbatim>\<open>json.loads\<close>, \<open>AttributeError\<close> from \<^verbatim>\<open>data.get\<close> on a
  value that is no dict, \<open>OSError\<close> from \<^verbatim>\<open>Path.exists\<close> (it stands for the error
  of the failed \<^verbatim>\<open>stat\<close>, of whatever subclass), and the rest from
  \<^verbatim>\<open>Path.read_text\<close>.
\<close>

datatype exn =
    HTTPException (status_code: nat) (detail: string)
  | JSONDecodeError
  | RecursionError
  | AttributeError
  | OSError
  | FileNotFoundError
  | IsADirectoryError
  | PermissionError
  | UnicodeDecodeError

definition HTTP_500_INTERNAL_SERVER_ERROR :: nat where
  "HTTP_500_INTERNAL_SERVER_ERROR = 500"

definition HTTP_403_FORBIDDEN :: nat where
  "HTTP_403_FORBIDDEN = 403"

subsection \<open>The process environment and the file system\<close>

datatype path = Path string

text \<open>
  A \<^verbatim>\<open>pathlib.Path\<close> is the string it was made from. What the file system holds at
  a path: a directory, a file the process may not read, a file whose bytes do not decode
  as text, or a text file with its contents. \<open>Inaccessible\<close> is a path whose
  \<^verbatim>\<open>stat\<close> fails with an error that \<^verbatim>\<open>Path.exists\<close> does not take for absence
  (a name that is too long, a parent directory that may not be searched): there
  \<^verbatim>\<open>Path.exists\<close> raises the \<open>OSError\<close>. A path that is not in \<open>files\<close> is one
  for which \<^verbatim>\<open>Path.exists\<close> returns \<^verbatim>\<open>False\<close>. A \<open>world\<close> is the environment and
  the files as one call finds them; between two calls they may change in any way.
\<close>

datatype node = Directory | Unreadable | Undecodable | Inaccessible | TextFile string

record world =
  environ :: "string \<rightharpoonup> string"
  files :: "path \<rightharpoonup> node"

datatype event = Getenv string | Exists path | ReadText path | JsonLoads string

definition os_getenv :: "world \<Rightarrow> string \<Rightarrow> string option" where
  "os_getenv w name = environ w name"

definition path_exists :: "world \<Rightarrow> path \<Rightarrow> exn + bool" where
  "path_exists w p =
     (case files w p of
        None \<Rightarrow> Inr False
      | Some Inaccessible \<Rightarrow> Inl OSError
      | Some _ \<Rightarrow> Inr True)"

definition read_text :: "world \<Rightarrow> path \<Rightarrow> exn + string" where
  "read_text w p =
     (case files w p of
        None \<Rightarrow> Inl FileNotFoundError
      | Some Directory \<Rightarrow> Inl IsADirectoryError
      | Some Unreadable \<Rightarrow> Inl PermissionError
      | Some Undecodable \<Rightarrow> Inl UnicodeDecodeError
      | Some Inaccessible \<Rightarrow> Inl OSError
      | Some (TextFile s) \<Rightarrow> Inr s)"

text \<open>\<^verbatim>\<open>data.get(name)\<close>: only a dict has the method; a missing key gives \<^verbatim>\<open>None\<close>.\<close>

fun dict_get :: "pyval \<Rightarrow> string \<Rightarrow> exn + pyval" where
  "dict_get (PyDict kvs) name = Inr (case map_of kvs name of None \<Rightarrow> PyNone | Some v \<Rightarrow> v)"
| "dict_get _ name = Inl AttributeError"

subsection \<open>The module's functions\<close>

text \<open>\<^verbatim>\<open>_get_access_key_path\<close>: the path and the one event of computing it.\<close>

definition get_access_key_path :: "world \<Rightarrow> path \<times> event list" where
  "get_access_key_path w =
     (let configured_path = os_getenv w ''CHAT_ACCESS_KEY_PATH'' in
      (case configured_path of
         None \<Rightarrow> Path ''access_key.json''
       | Some p \<Rightarrow> if p \<noteq> [] then Path p else Path ''access_key.json'',
       [Getenv ''CHAT_ACCESS_KEY_PATH'']))"

text \<open>
  The \<^verbatim>\<open>except json.JSONDecodeError\<close> clause around
  \<^verbatim>\<open>json.loads(path.read_text())\<close>: that exception is replaced, any other passes.
\<close>

definition except_JSONDecodeError :: "exn \<Rightarrow> exn" where
  "except_JSONDecodeError exc =
     (if exc = JSONDecodeError
      then HTTPException HTTP_500_INTERNAL_SERVER_ERROR ''Invalid access key JSON configuration.''
      else exc)"

text \<open>
  The body of \<^verbatim>\<open>_load_access_key\<close>, without the cache. \<^verbatim>\<open>json.loads\<close> is the standard
  library's and is a parameter: it returns the decoded value or raises. An exception of
  \<^verbatim>\<open>path.exists()\<close> leaves the function at once: the call is before the
  \<^verbatim>\<open>try\<close>.
\<close>

definition load_access_key_body ::
  "(string \<Rightarrow> exn + pyval) \<Rightarrow> world \<Rightarrow> (exn + pyval) \<times> event list" where
  "load_access_key_body json_loads w =
     (case get_access_key_path w of (path, evs0) \<Rightarrow>
        (case path_exists w path of
           Inl exc \<Rightarrow> (Inl exc, evs0 @ [Exists path])
         | Inr found \<Rightarrow>
             if \<not> found then
               (Inl (HTTPException HTTP_500_INTERNAL_SERVER_ERROR
                       ''Access key file not found on the server.''),
                evs0 @ [Exists path])
             else
               (case read_text w path of
                  Inl exc \<Rightarrow>
                    (Inl (except_JSONDecodeError exc), evs0 @ [Exists path, ReadText path])
                | Inr text \<Rightarrow>
                    (let evs = evs0 @ [Exists path, ReadText path, JsonLoads text] in
                     case json_loads text of
                       Inl exc \<Rightarrow> (Inl (except_JSONDecodeError exc), evs)
                     | Inr data \<Rightarrow>
                         (case dict_get data ''access_key'' of
                            Inl exc \<Rightarrow> (Inl exc, evs)
                          | Inr key \<Rightarrow>
                              if \<not> truthy key then
                                (Inl (HTTPException HTTP_500_INTERNAL_SERVER_ERROR
                                        ''Access key missing in configuration.''),
                                 evs)
                              else (Inr key, evs))))))"

text \<open>
  \<^verbatim>\<open>@lru_cache(maxsize=1)\<close> on a function without arguments: one memo cell. A hit
  returns the cell and runs nothing; a miss runs the body and stores the value only when
  the body returns.
\<close>

definition load_access_key ::
  "(string \<Rightarrow> exn + pyval) \<Rightarrow> world \<Rightarrow> pyval option \<Rightarrow>
     (exn + pyval) \<times> pyval option \<times> event list" where
  "load_access_key json_loads w cache =
     (case cache of
        Some v \<Rightarrow> (Inr v, cache, [])
      | None \<Rightarrow>
          (case load_access_key_body json_loads w of
             (Inl exc, evs) \<Rightarrow> (Inl exc, None, evs)
           | (Inr v, evs) \<Rightarrow> (Inr v, Some v, evs)))"

text \<open>\<^verbatim>\<open>validate_access_key\<close>; \<open>Inr ()\<close> is the return without a value.\<close>

definition validate_access_key ::
  "(string \<Rightarrow> exn + pyval) \<Rightarrow> world \<Rightarrow> pyval option \<Rightarrow> string option \<Rightarrow>
     (exn + unit) \<times> pyval option \<times> event list" where
  "validate_access_key json_loads w cache provided_key =
     (if (case provided_key of None \<Rightarrow> True | Some k \<Rightarrow> k = []) then
        (Inl (HTTPException HTTP_403_FORBIDDEN ''Missing access key.''), cache, [])
      else
        (case load_access_key json_loads w cache of
           (Inl exc, cache', evs) \<Rightarrow> (Inl exc, cache', evs)
         | (Inr expected_key, cache', evs) \<Rightarrow>
             if map_option PyStr provided_key \<noteq> Some expected_key then
               (Inl (HTTPException HTTP_403_FORBIDDEN ''Invalid access key.''), cache', evs)
             else (Inr (), cache', evs)))"

subsection \<open>A process: calls in sequence on one cache\<close>

text \<open>
  The environment and the files may differ from one call to the next; the cache is the
  only state the module keeps between calls.
\<close>

datatype call = CallLoad | CallValidate "string option"

datatype outcome = Loaded "exn + pyval" | Validated "exn + unit"

definition step ::
  "(string \<Rightarrow> exn + pyval) \<Rightarrow> world \<Rightarrow> call \<Rightarrow> pyval option \<Rightarrow>
     (outcome \<times> event list) \<times> pyval option" where
  "step json_loads w c cache =
     (case c of
        CallLoad \<Rightarrow>
          (case load_access_key json_loads w cache of
             (r, cache', evs) \<Rightarrow> ((Loaded r, evs), cache'))
      | CallValidate provided_key \<Rightarrow>
          (case validate_access_key json_loads w cache provided_key of
             (r, cache', evs) \<Rightarrow> ((Validated r, evs), cache')))"

fun run ::
  "(string \<Rightarrow> exn + pyval) \<Rightarrow> pyval option \<Rightarrow> (world \<times> call) list \<Rightarrow>
     (outcome \<times> event list) list \<times> pyval option" where
  "run json_loads cache [] = ([], cache)"
| "run json_loads cache ((w, c) # rest) =
     (case step json_loads w c cache of
        (out, cache') \<Rightarrow>
          (case run json_loads cache' rest of
             (outs, cache'') \<Rightarrow> (out # outs, cache'')))"

section \<open>Properties\<close>

subsection \<open>The functions, case by case\<close>

lemmas status_defs = HTTP_500_INTERNAL_SERVER_ERROR_def HTTP_403_FORBIDDEN_def

lemma resolved_path:
  "get_access_key_path w =
     (case environ w ''CHAT_ACCESS_KEY_PATH'' of
        None \<Rightarrow> Path ''access_key.json''
      | Some p \<Rightarrow> if p = [] then Path ''access_key.json'' else Path p,
      [Getenv ''CHAT_ACCESS_KEY_PATH''])"
  by (simp add: get_access_key_path_def os_getenv_def split: option.split)

lemma body_absent:
  assumes "files w (fst (get_access_key_path w)) = None"
  shows "load_access_key_body L w =
           (Inl (HTTPException 500 ''Access key file not found on the server.''),
            [Getenv ''CHAT_ACCESS_KEY_PATH'', Exists (fst (get_access_key_path w))])"
  using assms
  by (simp add: load_access_key_body_def path_exists_def resolved_path status_defs
        split: prod.split)

lemma body_text:
  assumes "files w (fst (get_access_key_path w)) = Some (TextFile t)"
  shows "load_access_key_body L w =
           (case L t of
              Inl exc \<Rightarrow> Inl (except_JSONDecodeError exc)
            | Inr data \<Rightarrow>
                (case dict_get data ''access_key'' of
                   Inl exc \<Rightarrow> Inl exc
                 | Inr key \<Rightarrow>
                     if truthy key then Inr key
                     else Inl (HTTPException 500 ''Access key missing in configuration.'')),
            [Getenv ''CHAT_ACCESS_KEY_PATH'', Exists (fst (get_access_key_path w)),
             ReadText (fst (get_access_key_path w)), JsonLoads t])"
  using assms
  by (simp add: load_access_key_body_def path_exists_def read_text_def resolved_path
        status_defs split: prod.split sum.split)

lemma body_unreadable:
  assumes "files w (fst (get_access_key_path w)) = Some n"
    and "n = Directory \<or> n = Unreadable \<or> n = Undecodable"
  shows "load_access_key_body L w =
           (Inl (if n = Directory then IsADirectoryError
                 else if n = Unreadable then PermissionError else UnicodeDecodeError),
            [Getenv ''CHAT_ACCESS_KEY_PATH'', Exists (fst (get_access_key_path w)),
             ReadText (fst (get_access_key_path w))])"
  using assms
  by (auto simp: load_access_key_body_def path_exists_def read_text_def resolved_path
        except_JSONDecodeError_def split: prod.split)

lemma body_inaccessible:
  assumes "files w (fst (get_access_key_path w)) = Some Inaccessible"
  shows "load_access_key_body L w =
           (Inl OSError,
            [Getenv ''CHAT_ACCESS_KEY_PATH'', Exists (fst (get_access_key_path w))])"
  using assms
  by (simp add: load_access_key_body_def path_exists_def resolved_path split: prod.split)

lemma load_hit: "load_access_key L w (Some v) = (Inr v, Some v, [])"
  by (simp add: load_access_key_def)

lemma load_miss:
  "load_access_key L w None =
     (fst (load_access_key_body L w),
      (case fst (load_access_key_body L w) of Inl exc \<Rightarrow> None | Inr v \<Rightarrow> Some v),
      snd (load_access_key_body L w))"
  by (simp add: load_access_key_def split: prod.split sum.split)


lemma validate_falsy:
  "provided_key = None \<or> provided_key = Some [] \<Longrightarrow>
   validate_access_key L w cache provided_key =
     (Inl (HTTPException 403 ''Missing access key.''), cache, [])"
  by (auto simp: validate_access_key_def status_defs)

lemma validate_truthy:
  "k \<noteq> [] \<Longrightarrow>
   validate_access_key L w cache (Some k) =
     (case load_access_key L w cache of
        (Inl exc, cache', evs) \<Rightarrow> (Inl exc, cache', evs)
      | (Inr expected_key, cache', evs) \<Rightarrow>
          (if PyStr k = expected_key then Inr ()
           else Inl (HTTPException 403 ''Invalid access key.''), cache', evs))"
  by (simp add: validate_access_key_def status_defs split: prod.split sum.split)

lemma body_configured:
  assumes "files w (fst (get_access_key_path w)) = Some (TextFile t)"
    and "L t = Inr (PyDict kvs)"
    and "map_of kvs ''access_key'' = Some v"
    and "truthy v"
  shows "load_access_key_body L w =
           (Inr v,
            [Getenv ''CHAT_ACCESS_KEY_PATH'', Exists (fst (get_access_key_path w)),
             ReadText (fst (get_access_key_path w)), JsonLoads t])"
  using assms by (simp add: body_text)

subsection \<open>Claims about \<open>validate_access_key\<close>\<close>

text \<open>
  C3. A key that is absent (\<open>None\<close>) or empty is refused with status 403 and the detail
  "Missing access key." before anything is loaded: whatever the environment, the files,
  \<^verbatim>\<open>json.loads\<close> and the cache are, the cache is returned as it was and no event
  happens, so a missing or invalid file cannot turn this into a configuration error. The
  mismatch of a non-empty key with a loaded secret has the same status 403 and the other
  detail, "Invalid access key.".
\<close>

theorem validate_missing_key:
  "validate_access_key L w cache None =
     (Inl (HTTPException 403 ''Missing access key.''), cache, [])
   \<and> validate_access_key L w cache (Some []) =
     (Inl (HTTPException 403 ''Missing access key.''), cache, [])
   \<and> validate_access_key L w (Some v) (Some (c # k)) =
     (if PyStr (c # k) = v then Inr () else Inl (HTTPException 403 ''Invalid access key.''),
      Some v, [])
   \<and> HTTPException 403 ''Missing access key.'' \<noteq> HTTPException 403 ''Invalid access key.''"
  by (simp add: validate_falsy validate_truthy load_hit)

text \<open>
  C1. Let the configuration file be a text file that decodes to an object whose
  \<open>access_key\<close> is the non-empty string \<open>s\<close>, in a process that has not loaded a secret
  yet or has loaded this one. For a non-empty key \<open>k\<close> the validation returns exactly when
  \<open>k = s\<close>, as lists of characters, and raises 403 "Invalid access key." otherwise. The
  witness is the secret \<open>abc\<close> against the keys \<open>abc\<close> and \<open>ABC\<close>.
\<close>

theorem validate_exact_match:
  assumes "cache = None \<or> cache = Some (PyStr s)"
    and "files w (fst (get_access_key_path w)) = Some (TextFile t)"
    and "L t = Inr (PyDict kvs)"
    and "map_of kvs ''access_key'' = Some (PyStr s)"
    and "s \<noteq> []"
    and "k \<noteq> []"
  shows "fst (validate_access_key L w cache (Some k)) =
           (if k = s then Inr () else Inl (HTTPException 403 ''Invalid access key.''))
         \<and> (fst (validate_access_key L w cache (Some k)) = Inr () \<longleftrightarrow> k = s)"
proof -
  have body: "fst (load_access_key_body L w) = Inr (PyStr s)"
    using assms(2-5) by (simp add: body_configured)
  from assms(1) have "fst (load_access_key L w cache) = Inr (PyStr s)"
    using body by (auto simp: load_hit load_miss)
  with assms(6) show ?thesis
    by (auto simp: validate_truthy split: prod.split sum.split)
qed

theorem validate_exact_match_witness:
  \<open>files \<lparr>environ = Map.empty,
           files = [Path ''access_key.json'' \<mapsto> TextFile ''{"access_key": "abc"}'']\<rparr>
      (Path ''access_key.json'') = Some (TextFile ''{"access_key": "abc"}'')
   \<and> fst (validate_access_key
        (\<lambda>text. if text = ''{"access_key": "abc"}''
                then Inr (PyDict [(''access_key'', PyStr ''abc'')]) else Inl JSONDecodeError)
        \<lparr>environ = Map.empty,
          files = [Path ''access_key.json'' \<mapsto> TextFile ''{"access_key": "abc"}'']\<rparr>
        None (Some ''abc'')) = Inr ()
   \<and> fst (validate_access_key
        (\<lambda>text. if text = ''{"access_key": "abc"}''
                then Inr (PyDict [(''access_key'', PyStr ''abc'')]) else Inl JSONDecodeError)
        \<lparr>environ = Map.empty,
          files = [Path ''access_key.json'' \<mapsto> TextFile ''{"access_key": "abc"}'']\<rparr>
        None (Some ''ABC'')) = Inl (HTTPException 403 ''Invalid access key.'')\<close>
  using validate_exact_match
      [of None "''abc''"
        \<open>\<lparr>environ = Map.empty,
          files = [Path ''access_key.json'' \<mapsto> TextFile ''{"access_key": "abc"}'']\<rparr>\<close>
        \<open>''{"access_key": "abc"}''\<close>
        \<open>\<lambda>text. if text = ''{"access_key": "abc"}''
                then Inr (PyDict [(''access_key'', PyStr ''abc'')]) else Inl JSONDecodeError\<close>
        \<open>[(''access_key'', PyStr ''abc'')]\<close> "''abc''"]
    validate_exact_match
      [of None "''abc''"
        \<open>\<lparr>environ = Map.empty,
          files = [Path ''access_key.json'' \<mapsto> TextFile ''{"access_key": "abc"}'']\<rparr>\<close>
        \<open>''{"access_key": "abc"}''\<close>
        \<open>\<lambda>text. if text = ''{"access_key": "abc"}''
                then Inr (PyDict [(''access_key'', PyStr ''abc'')]) else Inl JSONDecodeError\<close>
        \<open>[(''access_key'', PyStr ''abc'')]\<close> "''ABC''"]
  by (simp add: resolved_path)

subsection \<open>Claims about \<open>get_access_key_path\<close>\<close>

text \<open>
  C7. The path is read off the environment alone: when \<^verbatim>\<open>CHAT_ACCESS_KEY_PATH\<close> is set
  to a non-empty string the result is that string as a path, and when it is unset or
  empty the result is the relative path \<^verbatim>\<open>access_key.json\<close>. The only event is the
  read of the variable: the files are not consulted (replacing them changes nothing), and
  the function has no state to change.
\<close>

theorem get_access_key_path_reads_env:
  "(\<forall>p. environ w ''CHAT_ACCESS_KEY_PATH'' = Some p \<and> p \<noteq> [] \<longrightarrow>
        fst (get_access_key_path w) = Path p)
   \<and> (environ w ''CHAT_ACCESS_KEY_PATH'' = None \<or> environ w ''CHAT_ACCESS_KEY_PATH'' = Some [] \<longrightarrow>
        fst (get_access_key_path w) = Path ''access_key.json'')
   \<and> snd (get_access_key_path w) = [Getenv ''CHAT_ACCESS_KEY_PATH'']
   \<and> (\<forall>fs. get_access_key_path (w\<lparr>files := fs\<rparr>) = get_access_key_path w)"
  by (auto simp: resolved_path)

theorem get_access_key_path_reads_env_witness:
  "fst (get_access_key_path
          \<lparr>environ = [''CHAT_ACCESS_KEY_PATH'' \<mapsto> ''conf/key.json''], files = Map.empty\<rparr>)
     = Path ''conf/key.json''
   \<and> fst (get_access_key_path \<lparr>environ = Map.empty, files = Map.empty\<rparr>)
     = Path ''access_key.json''
   \<and> fst (get_access_key_path
          \<lparr>environ = [''CHAT_ACCESS_KEY_PATH'' \<mapsto> []], files = Map.empty\<rparr>)
     = Path ''access_key.json''"
  using get_access_key_path_reads_env
      [of "\<lparr>environ = [''CHAT_ACCESS_KEY_PATH'' \<mapsto> ''conf/key.json''], files = Map.empty\<rparr>"]
    get_access_key_path_reads_env [of "\<lparr>environ = Map.empty, files = Map.empty\<rparr>"]
    get_access_key_path_reads_env
      [of "\<lparr>environ = [''CHAT_ACCESS_KEY_PATH'' \<mapsto> []], files = Map.empty\<rparr>"]
  by simp

subsection \<open>Claims about \<open>load_access_key\<close>\<close>

text \<open>
  C2, as stated, fails: a file that holds the JSON list \<^verbatim>\<open>[1, 2]\<close> makes the load raise
  \<open>AttributeError\<close>, a path that names a directory makes it raise
  \<open>IsADirectoryError\<close>, and a path whose existence check itself fails makes it raise
  that \<open>OSError\<close>. None is one of the three configuration errors, and none of the calls
  returns a value.
\<close>

theorem load_not_classified_counterexample:
  \<open>fst (load_access_key
          (\<lambda>text. if text = ''[1, 2]'' then Inr (PyList [PyInt 1, PyInt 2])
                  else Inl JSONDecodeError)
          \<lparr>environ = Map.empty, files = [Path ''access_key.json'' \<mapsto> TextFile ''[1, 2]'']\<rparr>
          None) = Inl AttributeError
   \<and> fst (load_access_key (\<lambda>text. Inl JSONDecodeError)
          \<lparr>environ = Map.empty, files = [Path ''access_key.json'' \<mapsto> Directory]\<rparr>
          None) = Inl IsADirectoryError
   \<and> fst (load_access_key (\<lambda>text. Inl JSONDecodeError)
          \<lparr>environ = Map.empty, files = [Path ''access_key.json'' \<mapsto> Inaccessible]\<rparr>
          None) = Inl OSError\<close>
  by (simp add: load_miss load_access_key_body_def resolved_path path_exists_def read_text_def
        except_JSONDecodeError_def)

text \<open>
  C2, amended. On an empty cache, when the existence check of the resolved path returns
  \<^verbatim>\<open>False\<close> (\<open>files\<close> has nothing at the path), or the path is a text file that
  \<^verbatim>\<open>json.loads\<close> rejects with \<open>JSONDecodeError\<close> or decodes to an object, the load
  raises an \<open>HTTPException\<close> with status 500 in exactly three cases, each with its own
  detail: the path does not exist, the text is not valid JSON, or \<open>access_key\<close> is absent
  or falsy. In the remaining case it returns the value of the field. Nothing is said of a
  path whose existence check raises, of a path that cannot be read as text, or of JSON
  that is no object.
\<close>

theorem load_configuration_errors:
  "(files w (fst (get_access_key_path w)) = None \<longrightarrow>
      fst (load_access_key L w None) =
        Inl (HTTPException 500 ''Access key file not found on the server.''))
   \<and> (\<forall>t. files w (fst (get_access_key_path w)) = Some (TextFile t)
          \<and> L t = Inl JSONDecodeError \<longrightarrow>
      fst (load_access_key L w None) =
        Inl (HTTPException 500 ''Invalid access key JSON configuration.''))
   \<and> (\<forall>t kvs. files w (fst (get_access_key_path w)) = Some (TextFile t)
          \<and> L t = Inr (PyDict kvs)
          \<and> (map_of kvs ''access_key'' = None
               \<or> (\<exists>v. map_of kvs ''access_key'' = Some v \<and> \<not> truthy v)) \<longrightarrow>
      fst (load_access_key L w None) =
        Inl (HTTPException 500 ''Access key missing in configuration.''))
   \<and> (\<forall>t kvs v. files w (fst (get_access_key_path w)) = Some (TextFile t)
          \<and> L t = Inr (PyDict kvs)
          \<and> map_of kvs ''access_key'' = Some v \<and> truthy v \<longrightarrow>
      fst (load_access_key L w None) = Inr v)
   \<and> (files w (fst (get_access_key_path w)) = None
        \<or> (\<exists>t. files w (fst (get_access_key_path w)) = Some (TextFile t)
              \<and> (L t = Inl JSONDecodeError \<or> (\<exists>kvs. L t = Inr (PyDict kvs)))) \<longrightarrow>
      ((\<exists>msg. fst (load_access_key L w None) = Inl (HTTPException 500 msg)) \<longleftrightarrow>
         files w (fst (get_access_key_path w)) = None
         \<or> (\<exists>t. files w (fst (get_access_key_path w)) = Some (TextFile t)
               \<and> (L t = Inl JSONDecodeError
                    \<or> (\<exists>kvs. L t = Inr (PyDict kvs)
                          \<and> (\<forall>v. map_of kvs ''access_key'' = Some v \<longrightarrow> \<not> truthy v))))))"
  by (auto simp: load_miss body_absent body_text except_JSONDecodeError_def status_defs
        split: option.splits)

theorem load_configuration_errors_witness:
  \<open>fst (load_access_key (\<lambda>text. Inl JSONDecodeError)
          \<lparr>environ = Map.empty, files = Map.empty\<rparr> None)
     = Inl (HTTPException 500 ''Access key file not found on the server.'')
   \<and> fst (load_access_key (\<lambda>text. Inl JSONDecodeError)
          \<lparr>environ = Map.empty, files = [Path ''access_key.json'' \<mapsto> TextFile ''{not json}'']\<rparr>
          None)
     = Inl (HTTPException 500 ''Invalid access key JSON configuration.'')
   \<and> fst (load_access_key
          (\<lambda>text. if text = ''{"access_key": ""}'' then Inr (PyDict [(''access_key'', PyStr [])])
                  else Inl JSONDecodeError)
          \<lparr>environ = Map.empty,
            files = [Path ''access_key.json'' \<mapsto> TextFile ''{"access_key": ""}'']\<rparr>
          None)
     = Inl (HTTPException 500 ''Access key missing in configuration.'')
   \<and> fst (load_access_key
          (\<lambda>text. if text = ''{"access_key": "s3cr3t"}''
                  then Inr (PyDict [(''access_key'', PyStr ''s3cr3t'')])
                  else Inl JSONDecodeError)
          \<lparr>environ = Map.empty,
            files = [Path ''access_key.json'' \<mapsto> TextFile ''{"access_key": "s3cr3t"}'']\<rparr>
          None)
     = Inr (PyStr ''s3cr3t'')\<close>
  using load_configuration_errors
      [of \<open>\<lparr>environ = Map.empty, files = Map.empty\<rparr>\<close> \<open>\<lambda>text. Inl JSONDecodeError\<close>]
    load_configuration_errors
      [of \<open>\<lparr>environ = Map.empty,
             files = [Path ''access_key.json'' \<mapsto> TextFile ''{not json}'']\<rparr>\<close>
          \<open>\<lambda>text. Inl JSONDecodeError\<close>]
    load_configuration_errors
      [of \<open>\<lparr>environ = Map.empty,
             files = [Path ''access_key.json'' \<mapsto> TextFile ''{"access_key": ""}'']\<rparr>\<close>
          \<open>\<lambda>text. if text = ''{"access_key": ""}''
                   then Inr (PyDict [(''access_key'', PyStr [])])
                   else Inl JSONDecodeError\<close>]
    load_configuration_errors
      [of \<open>\<lparr>environ = Map.empty,
             files = [Path ''access_key.json'' \<mapsto> TextFile ''{"access_key": "s3cr3t"}'']\<rparr>\<close>
          \<open>\<lambda>text. if text = ''{"access_key": "s3cr3t"}''
                   then Inr (PyDict [(''access_key'', PyStr ''s3cr3t'')])
                   else Inl JSONDecodeError\<close>]
  by (simp add: resolved_path)

text \<open>
  C9. When the file is text that decodes to a JSON value other than an object (a list, a
  string, a number, a boolean, null), the load on an empty cache raises
  \<open>AttributeError\<close>, from the \<^verbatim>\<open>data.get\<close> that follows the guarded block. It is
  no \<open>HTTPException\<close> at all, so neither the 500 of a configuration error nor a 403, and
  nothing is stored in the cache.
\<close>

theorem load_non_object_raises_AttributeError:
  assumes "files w (fst (get_access_key_path w)) = Some (TextFile t)"
    and "L t = Inr data"
    and "\<forall>kvs. data \<noteq> PyDict kvs"
  shows "load_access_key L w None =
           (Inl AttributeError, None,
            [Getenv ''CHAT_ACCESS_KEY_PATH'', Exists (fst (get_access_key_path w)),
             ReadText (fst (get_access_key_path w)), JsonLoads t])
         \<and> (\<forall>code msg. AttributeError \<noteq> HTTPException code msg)"
proof -
  from assms(3) have "dict_get data ''access_key'' = Inl AttributeError"
    by (cases data) simp_all
  with assms(1,2) show ?thesis
    by (simp add: load_miss body_text)
qed

theorem load_non_object_raises_AttributeError_witness:
  \<open>fst (load_access_key
          (\<lambda>text. if text = ''[1, 2]'' then Inr (PyList [PyInt 1, PyInt 2])
                  else Inl JSONDecodeError)
          \<lparr>environ = Map.empty, files = [Path ''access_key.json'' \<mapsto> TextFile ''[1, 2]'']\<rparr>
          None) = Inl AttributeError
   \<and> fst (load_access_key
          (\<lambda>text. if text = ''"abc"'' then Inr (PyStr ''abc'') else Inl JSONDecodeError)
          \<lparr>environ = Map.empty, files = [Path ''access_key.json'' \<mapsto> TextFile ''"abc"'']\<rparr>
          None) = Inl AttributeError\<close>
  using load_non_object_raises_AttributeError
      [of \<open>\<lparr>environ = Map.empty,
             files = [Path ''access_key.json'' \<mapsto> TextFile ''[1, 2]'']\<rparr>\<close>
          \<open>''[1, 2]''\<close>
          \<open>\<lambda>text. if text = ''[1, 2]'' then Inr (PyList [PyInt 1, PyInt 2])
                   else Inl JSONDecodeError\<close>
          \<open>PyList [PyInt 1, PyInt 2]\<close>]
    load_non_object_raises_AttributeError
      [of \<open>\<lparr>environ = Map.empty,
             files = [Path ''access_key.json'' \<mapsto> TextFile ''"abc"'']\<rparr>\<close>
          \<open>''"abc"''\<close>
          \<open>\<lambda>text. if text = ''"abc"'' then Inr (PyStr ''abc'') else Inl JSONDecodeError\<close>
          \<open>PyStr ''abc''\<close>]
  by (simp add: resolved_path)

text \<open>
  C10. There are paths that exist and cannot be read as text: a directory, a file without
  read permission, a file whose bytes do not decode. For each of them the existence check
  passes, \<^verbatim>\<open>read_text\<close> raises (\<open>IsADirectoryError\<close>, \<open>PermissionError\<close>,
  \<open>UnicodeDecodeError\<close>), and the load on an empty cache raises that same exception: the
  only handler around the read is for \<open>JSONDecodeError\<close>. The exception is no
  \<open>HTTPException\<close>, whatever the status.
\<close>

theorem load_unreadable_raises_read_error:
  assumes "files w (fst (get_access_key_path w)) = Some n"
    and "n = Directory \<or> n = Unreadable \<or> n = Undecodable"
  shows "path_exists w (fst (get_access_key_path w)) = Inr True
         \<and> load_access_key L w None =
             (Inl (if n = Directory then IsADirectoryError
                   else if n = Unreadable then PermissionError else UnicodeDecodeError),
              None,
              [Getenv ''CHAT_ACCESS_KEY_PATH'', Exists (fst (get_access_key_path w)),
               ReadText (fst (get_access_key_path w))])
         \<and> (\<forall>code msg. fst (load_access_key L w None) \<noteq> Inl (HTTPException code msg))"
proof -
  from assms have "load_access_key_body L w =
      (Inl (if n = Directory then IsADirectoryError
            else if n = Unreadable then PermissionError else UnicodeDecodeError),
       [Getenv ''CHAT_ACCESS_KEY_PATH'', Exists (fst (get_access_key_path w)),
        ReadText (fst (get_access_key_path w))])"
    by (rule body_unreadable)
  with assms show ?thesis
    by (auto simp: load_miss path_exists_def)
qed

theorem load_unreadable_raises_read_error_witness:
  "load_access_key (\<lambda>text. Inl JSONDecodeError)
      \<lparr>environ = Map.empty, files = [Path ''access_key.json'' \<mapsto> Directory]\<rparr> None =
     (Inl IsADirectoryError, None,
      [Getenv ''CHAT_ACCESS_KEY_PATH'', Exists (Path ''access_key.json''),
       ReadText (Path ''access_key.json'')])
   \<and> fst (load_access_key (\<lambda>text. Inl JSONDecodeError)
      \<lparr>environ = [''CHAT_ACCESS_KEY_PATH'' \<mapsto> ''/etc/chat/key.json''],
        files = [Path ''/etc/chat/key.json'' \<mapsto> Unreadable]\<rparr> None) = Inl PermissionError
   \<and> fst (load_access_key (\<lambda>text. Inl JSONDecodeError)
      \<lparr>environ = Map.empty, files = [Path ''access_key.json'' \<mapsto> Undecodable]\<rparr> None) =
     Inl UnicodeDecodeError"
  using load_unreadable_raises_read_error
      [of "\<lparr>environ = Map.empty, files = [Path ''access_key.json'' \<mapsto> Directory]\<rparr>"
          Directory "\<lambda>text. Inl JSONDecodeError"]
    load_unreadable_raises_read_error
      [of "\<lparr>environ = [''CHAT_ACCESS_KEY_PATH'' \<mapsto> ''/etc/chat/key.json''],
             files = [Path ''/etc/chat/key.json'' \<mapsto> Unreadable]\<rparr>"
          Unreadable "\<lambda>text. Inl JSONDecodeError"]
    load_unreadable_raises_read_error
      [of "\<lparr>environ = Map.empty, files = [Path ''access_key.json'' \<mapsto> Undecodable]\<rparr>"
          Undecodable "\<lambda>text. Inl JSONDecodeError"]
  by (simp add: resolved_path)

text \<open>
  C8, as stated, fails at the empty string: with the number 123 as the configured key the
  load succeeds and caches 123, and the empty key is then refused with
  "Missing access key.", not with "Invalid access key.".
\<close>

theorem validate_non_string_secret_counterexample:
  \<open>fst (load_access_key
          (\<lambda>text. if text = ''{"access_key": 123}'' then Inr (PyDict [(''access_key'', PyInt 123)])
                  else Inl JSONDecodeError)
          \<lparr>environ = Map.empty,
            files = [Path ''access_key.json'' \<mapsto> TextFile ''{"access_key": 123}'']\<rparr>
          None) = Inr (PyInt 123)
   \<and> fst (validate_access_key
          (\<lambda>text. if text = ''{"access_key": 123}'' then Inr (PyDict [(''access_key'', PyInt 123)])
                  else Inl JSONDecodeError)
          \<lparr>environ = Map.empty,
            files = [Path ''access_key.json'' \<mapsto> TextFile ''{"access_key": 123}'']\<rparr>
          (Some (PyInt 123)) (Some [])) = Inl (HTTPException 403 ''Missing access key.'')
   \<and> fst (validate_access_key
          (\<lambda>text. if text = ''{"access_key": 123}'' then Inr (PyDict [(''access_key'', PyInt 123)])
                  else Inl JSONDecodeError)
          \<lparr>environ = Map.empty,
            files = [Path ''access_key.json'' \<mapsto> TextFile ''{"access_key": 123}'']\<rparr>
          (Some (PyInt 123)) (Some [])) \<noteq> Inl (HTTPException 403 ''Invalid access key.'')\<close>
  by (simp add: load_miss body_text resolved_path validate_falsy)

text \<open>
  C8, amended. The load does not check that \<open>access_key\<close> holds a string: when the field
  is a truthy value that is no string (123, a non-empty list), the load on an empty cache
  returns that value and caches it. After that, and also in the very call that loads it,
  the validation of every non-empty string raises 403 "Invalid access key.", since a
  string is never equal to a value of another type.
\<close>

theorem validate_non_string_secret:
  assumes "files w (fst (get_access_key_path w)) = Some (TextFile t)"
    and "L t = Inr (PyDict kvs)"
    and "map_of kvs ''access_key'' = Some v"
    and "truthy v"
    and "\<forall>s. v \<noteq> PyStr s"
  shows "load_access_key L w None =
           (Inr v, Some v,
            [Getenv ''CHAT_ACCESS_KEY_PATH'', Exists (fst (get_access_key_path w)),
             ReadText (fst (get_access_key_path w)), JsonLoads t])
         \<and> (\<forall>k. k \<noteq> [] \<longrightarrow>
               fst (validate_access_key L w None (Some k)) =
                 Inl (HTTPException 403 ''Invalid access key.'')
               \<and> (\<forall>w'. validate_access_key L w' (Some v) (Some k) =
                     (Inl (HTTPException 403 ''Invalid access key.''), Some v, [])))"
proof -
  have load: "load_access_key L w None =
      (Inr v, Some v,
       [Getenv ''CHAT_ACCESS_KEY_PATH'', Exists (fst (get_access_key_path w)),
        ReadText (fst (get_access_key_path w)), JsonLoads t])"
    using assms(1-4) by (simp add: load_miss body_configured)
  have ne: "PyStr k \<noteq> v" for k
    using assms(5) by auto
  note load
  moreover have "fst (validate_access_key L w None (Some k)) =
      Inl (HTTPException 403 ''Invalid access key.'')" if "k \<noteq> []" for k
    using that load ne by (simp add: validate_truthy)
  moreover have "validate_access_key L w' (Some v) (Some k) =
      (Inl (HTTPException 403 ''Invalid access key.''), Some v, [])" if "k \<noteq> []" for k w'
    using that ne by (simp add: validate_truthy load_hit)
  ultimately show ?thesis
    by blast
qed

theorem validate_non_string_secret_witness:
  \<open>fst (load_access_key
          (\<lambda>text. if text = ''{"access_key": 123}'' then Inr (PyDict [(''access_key'', PyInt 123)])
                  else Inl JSONDecodeError)
          \<lparr>environ = Map.empty,
            files = [Path ''access_key.json'' \<mapsto> TextFile ''{"access_key": 123}'']\<rparr>
          None) = Inr (PyInt 123)
   \<and> fst (validate_access_key
          (\<lambda>text. if text = ''{"access_key": 123}'' then Inr (PyDict [(''access_key'', PyInt 123)])
                  else Inl JSONDecodeError)
          \<lparr>environ = Map.empty,
            files = [Path ''access_key.json'' \<mapsto> TextFile ''{"access_key": 123}'']\<rparr>
          None (Some ''123'')) = Inl (HTTPException 403 ''Invalid access key.'')
   \<and> fst (validate_access_key
          (\<lambda>text. if text = ''{"access_key": ["a"]}''
                  then Inr (PyDict [(''access_key'', PyList [PyStr ''a''])])
                  else Inl JSONDecodeError)
          \<lparr>environ = Map.empty,
            files = [Path ''access_key.json'' \<mapsto> TextFile ''{"access_key": ["a"]}'']\<rparr>
          None (Some ''a'')) = Inl (HTTPException 403 ''Invalid access key.'')\<close>
  using validate_non_string_secret
      [of \<open>\<lparr>environ = Map.empty,
             files = [Path ''access_key.json'' \<mapsto> TextFile ''{"access_key": 123}'']\<rparr>\<close>
          \<open>''{"access_key": 123}''\<close>
          \<open>\<lambda>text. if text = ''{"access_key": 123}''
                   then Inr (PyDict [(''access_key'', PyInt 123)]) else Inl JSONDecodeError\<close>
          \<open>[(''access_key'', PyInt 123)]\<close> \<open>PyInt 123\<close>]
    validate_non_string_secret
      [of \<open>\<lparr>environ = Map.empty,
             files = [Path ''access_key.json'' \<mapsto> TextFile ''{"access_key": ["a"]}'']\<rparr>\<close>
          \<open>''{"access_key": ["a"]}''\<close>
          \<open>\<lambda>text. if text = ''{"access_key": ["a"]}''
                   then Inr (PyDict [(''access_key'', PyList [PyStr ''a''])])
                   else Inl JSONDecodeError\<close>
          \<open>[(''access_key'', PyList [PyStr ''a''])]\<close> \<open>PyList [PyStr ''a'']\<close>]
  by (simp add: resolved_path)

subsection \<open>Sequences of calls\<close>

lemma run_append:
  "run L c (xs @ ys) =
     (case run L c xs of (outs1, c1) \<Rightarrow>
        (case run L c1 ys of (outs2, c2) \<Rightarrow> (outs1 @ outs2, c2)))"
  by (induction xs arbitrary: c) (auto split: prod.split)

lemma load_failure_cache:
  assumes "load_access_key L w c = (Inl e, c', evs)"
  shows "c = None \<and> c' = None \<and> load_access_key_body L w = (Inl e, evs)"
  using assms
  by (cases c) (auto simp: load_access_key_def split: prod.splits sum.splits)

lemma load_success_cache:
  assumes "load_access_key L w c = (Inr v, c', evs)"
  shows "c' = Some v"
  using assms
  by (cases c) (auto simp: load_access_key_def split: prod.splits sum.splits)

lemma validate_hit:
  "validate_access_key L w (Some v) provided_key =
     (if provided_key = None \<or> provided_key = Some [] then
        Inl (HTTPException 403 ''Missing access key.'')
      else if map_option PyStr provided_key = Some v then Inr ()
      else Inl (HTTPException 403 ''Invalid access key.''),
      Some v, [])"
  by (cases provided_key) (auto simp: validate_access_key_def load_hit status_defs)

lemma step_hit:
  "step L w call (Some v) = step L' w' call (Some v)"
  "snd (step L w call (Some v)) = Some v"
  "snd (fst (step L w call (Some v))) = []"
  by (cases call; simp add: step_def load_hit validate_hit)+

lemma run_hit:
  "run L (Some v) steps = (map (\<lambda>s. fst (step L' w' (snd s) (Some v))) steps, Some v)"
proof (induction steps)
  case Nil
  show ?case by simp
next
  case (Cons s steps)
  obtain w call where s: "s = (w, call)"
    by (cases s)
  obtain out c' where st: "step L w call (Some v) = (out, c')"
    by (cases "step L w call (Some v)")
  from st have "c' = Some v" and "out = fst (step L' w' call (Some v))"
    using step_hit(1)[of L w call v L' w'] step_hit(2)[of L w call v] by auto
  with Cons.IH s st show ?case
    by simp
qed

lemma run_retries_fail:
  assumes "\<forall>out \<in> set (fst (run L None (map (\<lambda>w. (w, CallLoad)) ws))).
             \<exists>e evs. out = (Loaded (Inl e), evs)"
  shows "run L None (map (\<lambda>w. (w, CallLoad)) ws) =
           (map (\<lambda>w. (Loaded (fst (load_access_key_body L w)), snd (load_access_key_body L w)))
              ws, None)"
  using assms
proof (induction ws)
  case Nil
  show ?case by simp
next
  case (Cons w ws)
  obtain r c' evs where ld: "load_access_key L w None = (r, c', evs)"
    by (cases "load_access_key L w None")
  obtain outs c'' where rn: "run L c' (map (\<lambda>w. (w, CallLoad)) ws) = (outs, c'')"
    by (cases "run L c' (map (\<lambda>w. (w, CallLoad)) ws)")
  from Cons.prems ld rn obtain e where r: "r = Inl e"
    by (auto simp: step_def)
  with ld have c': "c' = None" and body: "load_access_key_body L w = (Inl e, evs)"
    using load_failure_cache[of L w None e c' evs] by simp_all
  from Cons.prems ld rn c' have
    "\<forall>out \<in> set (fst (run L None (map (\<lambda>w. (w, CallLoad)) ws))). \<exists>e evs. out = (Loaded (Inl e), evs)"
    by (simp add: step_def)
  then have "run L None (map (\<lambda>w. (w, CallLoad)) ws) =
      (map (\<lambda>w. (Loaded (fst (load_access_key_body L w)), snd (load_access_key_body L w))) ws,
       None)"
    by (rule Cons.IH)
  with ld r c' body show ?case
    by (simp add: step_def)
qed

lemma body_events_paths:
  assumes "Exists p \<in> set (snd (load_access_key_body L w))
           \<or> ReadText p \<in> set (snd (load_access_key_body L w))"
  shows "p = fst (get_access_key_path w)"
  using assms
  by (auto simp: load_access_key_body_def resolved_path Let_def
        split: prod.splits sum.splits if_splits option.splits)

lemma body_events_start:
  "\<exists>rest. snd (load_access_key_body L w) =
     Getenv ''CHAT_ACCESS_KEY_PATH'' # Exists (fst (get_access_key_path w)) # rest"
  by (auto simp: load_access_key_body_def resolved_path Let_def
        split: prod.splits sum.splits if_splits option.splits)

lemma load_events_paths:
  assumes "Exists p \<in> set (snd (snd (load_access_key L w c)))
           \<or> ReadText p \<in> set (snd (snd (load_access_key L w c)))"
  shows "p = fst (get_access_key_path w)"
proof (cases c)
  case None
  with assms show ?thesis
    using body_events_paths[of p L w] by (simp add: load_miss)
next
  case (Some v)
  with assms show ?thesis
    by (simp add: load_hit)
qed

lemma run_loads_paths:
  assumes "\<forall>w \<in> set ws. fst (get_access_key_path w) = P"
    and "out \<in> set (fst (run L c (map (\<lambda>w. (w, CallLoad)) ws)))"
    and "Exists p \<in> set (snd out) \<or> ReadText p \<in> set (snd out)"
  shows "p = P"
  using assms
proof (induction ws arbitrary: c)
  case Nil
  then show ?case by simp
next
  case (Cons w ws)
  obtain r c' evs where ld: "load_access_key L w c = (r, c', evs)"
    by (cases "load_access_key L w c")
  obtain outs c'' where rn: "run L c' (map (\<lambda>w. (w, CallLoad)) ws) = (outs, c'')"
    by (cases "run L c' (map (\<lambda>w. (w, CallLoad)) ws)")
  from Cons.prems(2) ld rn have "out = (Loaded r, evs) \<or> out \<in> set outs"
    by (simp add: step_def)
  then show ?case
  proof
    assume "out = (Loaded r, evs)"
    with Cons.prems(3) ld have "p = fst (get_access_key_path w)"
      using load_events_paths[of p L w c] by simp
    with Cons.prems(1) show ?thesis
      by simp
  next
    assume "out \<in> set outs"
    with rn have "out \<in> set (fst (run L c' (map (\<lambda>w. (w, CallLoad)) ws)))"
      by simp
    with Cons.prems(1,3) show ?thesis
      using Cons.IH[of c'] by simp
  qed
qed

subsection \<open>Claims about the cache\<close>

text \<open>
  C4. A failed load is not memoized. After any earlier calls, a load that raises found
  the cache empty and leaves it empty. The next load, in whatever state the environment
  and the files are then, is the body run again from the start (its result and its
  events are the body's, beginning with the read of the variable and the existence
  check), and so is every later one as long as they all raise. A validation of a
  non-empty key that fails in this way raises the load's exception; when the file is
  then repaired, the validation of the right key returns in the same process, after a
  full resolve, existence check, read and decode.
\<close>

theorem load_failures_not_memoized:
  assumes "run L c0 history = (outs, c)"
    and "load_access_key L w c = (Inl e, c', evs)"
    and "files w2 (fst (get_access_key_path w2)) = Some (TextFile t)"
    and "L t = Inr (PyDict kvs)"
    and "map_of kvs ''access_key'' = Some (PyStr s)"
    and "s \<noteq> []"
    and "k \<noteq> []"
  shows "c = None \<and> c' = None
    \<and> load_access_key L w3 c' =
        (fst (load_access_key_body L w3),
         (case fst (load_access_key_body L w3) of Inl exc \<Rightarrow> None | Inr v \<Rightarrow> Some v),
         snd (load_access_key_body L w3))
    \<and> (\<exists>rest. snd (snd (load_access_key L w3 c')) =
          Getenv ''CHAT_ACCESS_KEY_PATH'' # Exists (fst (get_access_key_path w3)) # rest)
    \<and> ((\<forall>out \<in> set (fst (run L c' (map (\<lambda>w. (w, CallLoad)) ws))).
           \<exists>e evs. out = (Loaded (Inl e), evs)) \<longrightarrow>
        run L c' (map (\<lambda>w. (w, CallLoad)) ws) =
          (map (\<lambda>w. (Loaded (fst (load_access_key_body L w)), snd (load_access_key_body L w)))
             ws, None))
    \<and> validate_access_key L w c (Some k) = (Inl e, None, evs)
    \<and> run L c0 (history @ [(w, CallValidate (Some k)), (w2, CallValidate (Some s))]) =
        (outs @ [(Validated (Inl e), evs),
                 (Validated (Inr ()),
                  [Getenv ''CHAT_ACCESS_KEY_PATH'', Exists (fst (get_access_key_path w2)),
                   ReadText (fst (get_access_key_path w2)), JsonLoads t])],
         Some (PyStr s))"
proof -
  from assms(2) have c: "c = None" and c': "c' = None"
    using load_failure_cache[of L w c e c' evs] by simp_all
  have next_load: "load_access_key L w3 c' =
      (fst (load_access_key_body L w3),
       (case fst (load_access_key_body L w3) of Inl exc \<Rightarrow> None | Inr v \<Rightarrow> Some v),
       snd (load_access_key_body L w3))"
    using c' by (simp add: load_miss)
  have start: "\<exists>rest. snd (snd (load_access_key L w3 c')) =
      Getenv ''CHAT_ACCESS_KEY_PATH'' # Exists (fst (get_access_key_path w3)) # rest"
    using c' body_events_start[of L w3] by (simp add: load_miss)
  have retries: "(\<forall>out \<in> set (fst (run L c' (map (\<lambda>w. (w, CallLoad)) ws))).
           \<exists>e evs. out = (Loaded (Inl e), evs)) \<longrightarrow>
        run L c' (map (\<lambda>w. (w, CallLoad)) ws) =
          (map (\<lambda>w. (Loaded (fst (load_access_key_body L w)), snd (load_access_key_body L w)))
             ws, None)"
    using c' run_retries_fail[of L ws] by simp
  have failing: "validate_access_key L w c (Some k) = (Inl e, None, evs)"
    using assms(2,7) c' by (simp add: validate_truthy)
  have repaired: "validate_access_key L w2 None (Some s) =
      (Inr (),  Some (PyStr s),
       [Getenv ''CHAT_ACCESS_KEY_PATH'', Exists (fst (get_access_key_path w2)),
        ReadText (fst (get_access_key_path w2)), JsonLoads t])"
    using assms(3-6) by (simp add: validate_truthy load_miss body_configured)
  have "run L c0 (history @ [(w, CallValidate (Some k)), (w2, CallValidate (Some s))]) =
        (outs @ [(Validated (Inl e), evs),
                 (Validated (Inr ()),
                  [Getenv ''CHAT_ACCESS_KEY_PATH'', Exists (fst (get_access_key_path w2)),
                   ReadText (fst (get_access_key_path w2)), JsonLoads t])],
         Some (PyStr s))"
    using assms(1) failing repaired by (simp add: run_append step_def)
  with c c' next_load start retries failing show ?thesis
    by blast
qed

theorem load_failures_not_memoized_witness:
  \<open>run (\<lambda>text. if text = ''{"access_key": "abc"}''
                then Inr (PyDict [(''access_key'', PyStr ''abc'')]) else Inl JSONDecodeError)
       None
       [(\<lparr>environ = Map.empty,
           files = [Path ''access_key.json'' \<mapsto> TextFile ''{not json}'']\<rparr>,
         CallValidate (Some ''x'')),
        (\<lparr>environ = Map.empty,
           files = [Path ''access_key.json'' \<mapsto> TextFile ''{"access_key": "abc"}'']\<rparr>,
         CallValidate (Some ''abc''))]
    = ([(Validated (Inl (HTTPException 500 ''Invalid access key JSON configuration.'')),
         [Getenv ''CHAT_ACCESS_KEY_PATH'', Exists (Path ''access_key.json''),
          ReadText (Path ''access_key.json''), JsonLoads ''{not json}'']),
        (Validated (Inr ()),
         [Getenv ''CHAT_ACCESS_KEY_PATH'', Exists (Path ''access_key.json''),
          ReadText (Path ''access_key.json''), JsonLoads ''{"access_key": "abc"}''])],
       Some (PyStr ''abc''))\<close>
proof -
  let ?L = \<open>\<lambda>text. if text = ''{"access_key": "abc"}''
                then Inr (PyDict [(''access_key'', PyStr ''abc'')]) else Inl JSONDecodeError\<close>
  let ?bad = \<open>\<lparr>environ = Map.empty,
                files = [Path ''access_key.json'' \<mapsto> TextFile ''{not json}'']\<rparr>\<close>
  let ?good = \<open>\<lparr>environ = Map.empty,
                 files = [Path ''access_key.json'' \<mapsto> TextFile ''{"access_key": "abc"}'']\<rparr>\<close>
  have h1: "run ?L None [] = ([], None)"
    by simp
  have h2: "load_access_key ?L ?bad None =
      (Inl (HTTPException 500 ''Invalid access key JSON configuration.''), None,
       [Getenv ''CHAT_ACCESS_KEY_PATH'', Exists (Path ''access_key.json''),
        ReadText (Path ''access_key.json''), JsonLoads ''{not json}''])"
    by (simp add: load_miss body_text resolved_path except_JSONDecodeError_def status_defs)
  have h3: \<open>files ?good (fst (get_access_key_path ?good)) =
      Some (TextFile ''{"access_key": "abc"}'')\<close>
    by (simp add: resolved_path)
  have h4: \<open>?L ''{"access_key": "abc"}'' = Inr (PyDict [(''access_key'', PyStr ''abc'')])\<close>
    by simp
  have h5: "map_of [(''access_key'', PyStr ''abc'')] ''access_key'' = Some (PyStr ''abc'')"
    by simp
  have h6: "''abc'' \<noteq> []" and h7: "''x'' \<noteq> []"
    by simp_all
  from load_failures_not_memoized[OF h1 h2 h3 h4 h5 h6 h7]
  show ?thesis
    by (simp add: resolved_path)
qed

text \<open>
  C5. Once a load has returned \<open>v\<close>, the cache holds \<open>v\<close> for the rest of the process.
  Every later load returns \<open>v\<close> with no event at all, so without touching the
  environment or the files; every later validation has no event either and gives the same
  outcome whatever the files have become. For a whole sequence of later calls: the
  outcomes depend on the calls alone and not on the worlds they run in, every call is
  without events, and the cache is \<open>v\<close> at the end.
\<close>

theorem cached_secret_never_changes:
  assumes "load_access_key L w0 c0 = (Inr v, c1, evs)"
    and "map snd steps' = map snd steps"
  shows "c1 = Some v
    \<and> load_access_key L w c1 = (Inr v, Some v, [])
    \<and> validate_access_key L w c1 k = validate_access_key L w' c1 k
    \<and> snd (validate_access_key L w c1 k) = (Some v, [])
    \<and> fst (run L c1 steps') = fst (run L c1 steps)
    \<and> snd (run L c1 steps) = Some v
    \<and> (\<forall>out \<in> set (fst (run L c1 steps)). snd out = [])"
proof -
  from assms(1) have c1: "c1 = Some v"
    by (rule load_success_cache)
  have r: "run L (Some v) xs = (map (\<lambda>s. fst (step L w0 (snd s) (Some v))) xs, Some v)" for xs
    by (rule run_hit)
  have "map (\<lambda>s. fst (step L w0 (snd s) (Some v))) steps'
      = map (\<lambda>call. fst (step L w0 call (Some v))) (map snd steps')"
    by (simp add: comp_def)
  also have "\<dots> = map (\<lambda>s. fst (step L w0 (snd s) (Some v))) steps"
    using assms(2) by (simp add: comp_def)
  finally have same: "fst (run L (Some v) steps') = fst (run L (Some v) steps)"
    by (simp add: r)
  have quiet: "\<forall>out \<in> set (fst (run L (Some v) steps)). snd out = []"
    by (auto simp: r step_hit(3))
  from c1 same quiet show ?thesis
    by (simp add: load_hit validate_hit r)
qed

theorem cached_secret_never_changes_witness:
  \<open>load_access_key
      (\<lambda>text. if text = ''{"access_key": "abc"}''
              then Inr (PyDict [(''access_key'', PyStr ''abc'')]) else Inl JSONDecodeError)
      \<lparr>environ = Map.empty,
        files = [Path ''access_key.json'' \<mapsto> TextFile ''{"access_key": "abc"}'']\<rparr>
      None
    = (Inr (PyStr ''abc''), Some (PyStr ''abc''),
       [Getenv ''CHAT_ACCESS_KEY_PATH'', Exists (Path ''access_key.json''),
        ReadText (Path ''access_key.json''), JsonLoads ''{"access_key": "abc"}''])
   \<and> run
      (\<lambda>text. if text = ''{"access_key": "abc"}''
              then Inr (PyDict [(''access_key'', PyStr ''abc'')]) else Inl JSONDecodeError)
      (Some (PyStr ''abc''))
      [(\<lparr>environ = Map.empty, files = Map.empty\<rparr>, CallValidate (Some ''abc'')),
       (\<lparr>environ = Map.empty,
          files = [Path ''access_key.json'' \<mapsto> TextFile ''{not json}'']\<rparr>,
        CallValidate (Some ''ABC'')),
       (\<lparr>environ = Map.empty, files = Map.empty\<rparr>, CallLoad)]
    = ([(Validated (Inr ()), []),
        (Validated (Inl (HTTPException 403 ''Invalid access key.'')), []),
        (Loaded (Inr (PyStr ''abc'')), [])],
       Some (PyStr ''abc''))\<close>
proof -
  let ?L = \<open>\<lambda>text. if text = ''{"access_key": "abc"}''
                then Inr (PyDict [(''access_key'', PyStr ''abc'')]) else Inl JSONDecodeError\<close>
  let ?good = \<open>\<lparr>environ = Map.empty,
                 files = [Path ''access_key.json'' \<mapsto> TextFile ''{"access_key": "abc"}'']\<rparr>\<close>
  let ?gone = "\<lparr>environ = Map.empty, files = Map.empty\<rparr>"
  let ?bad = \<open>\<lparr>environ = Map.empty,
                files = [Path ''access_key.json'' \<mapsto> TextFile ''{not json}'']\<rparr>\<close>
  have h1: \<open>load_access_key ?L ?good None
    = (Inr (PyStr ''abc''), Some (PyStr ''abc''),
       [Getenv ''CHAT_ACCESS_KEY_PATH'', Exists (Path ''access_key.json''),
        ReadText (Path ''access_key.json''), JsonLoads ''{"access_key": "abc"}''])\<close>
    by (simp add: load_miss body_text resolved_path)
  have h2: "map snd [(?good, CallValidate (Some ''abc'')), (?good, CallValidate (Some ''ABC'')),
                     (?good, CallLoad)]
      = map snd [(?gone, CallValidate (Some ''abc'')), (?bad, CallValidate (Some ''ABC'')),
                 (?gone, CallLoad)]"
    by simp
  have still: "run ?L (Some (PyStr ''abc''))
      [(?good, CallValidate (Some ''abc'')), (?good, CallValidate (Some ''ABC'')),
       (?good, CallLoad)]
    = ([(Validated (Inr ()), []),
        (Validated (Inl (HTTPException 403 ''Invalid access key.'')), []),
        (Loaded (Inr (PyStr ''abc'')), [])],
       Some (PyStr ''abc''))"
    by (simp add: step_def validate_hit load_hit)
  from cached_secret_never_changes[OF h1 h2] still h1 show ?thesis
    by (simp add: prod_eq_iff)
qed

text \<open>
  C6, as stated, fails: the path is resolved again by every load that finds the cache
  empty. With \<^verbatim>\<open>CHAT_ACCESS_KEY_PATH=a.json\<close> and no such file the first load raises
  after checking \<^verbatim>\<open>a.json\<close>; with the variable changed to \<^verbatim>\<open>b.json\<close> the retry
  checks and reads \<^verbatim>\<open>b.json\<close>, on the same files.
\<close>

theorem path_resolved_once_counterexample:
  \<open>run (\<lambda>text. if text = ''{"access_key": "abc"}''
                then Inr (PyDict [(''access_key'', PyStr ''abc'')]) else Inl JSONDecodeError)
       None
       [(\<lparr>environ = [''CHAT_ACCESS_KEY_PATH'' \<mapsto> ''a.json''],
           files = [Path ''b.json'' \<mapsto> TextFile ''{"access_key": "abc"}'']\<rparr>, CallLoad),
        (\<lparr>environ = [''CHAT_ACCESS_KEY_PATH'' \<mapsto> ''b.json''],
           files = [Path ''b.json'' \<mapsto> TextFile ''{"access_key": "abc"}'']\<rparr>, CallLoad)]
    = ([(Loaded (Inl (HTTPException 500 ''Access key file not found on the server.'')),
         [Getenv ''CHAT_ACCESS_KEY_PATH'', Exists (Path ''a.json'')]),
        (Loaded (Inr (PyStr ''abc'')),
         [Getenv ''CHAT_ACCESS_KEY_PATH'', Exists (Path ''b.json''),
          ReadText (Path ''b.json''), JsonLoads ''{"access_key": "abc"}''])],
       Some (PyStr ''abc''))
   \<and> Path ''a.json'' \<noteq> Path ''b.json''\<close>
  by (simp add: step_def load_miss body_absent body_text resolved_path)

text \<open>
  C6, amended. The path is resolved by every load that finds the cache empty, from the
  value \<^verbatim>\<open>CHAT_ACCESS_KEY_PATH\<close> has at that call: the load reads the variable and then
  checks, and reads, that path and no other. Two calls at which the variable has the same
  value use the same path, so in a sequence of loads during which the variable does not
  change every existence check and every read is of one path. A load that finds the cache
  filled resolves no path.
\<close>

theorem path_resolved_per_load:
  "(\<exists>rest. snd (snd (load_access_key L w None)) =
       Getenv ''CHAT_ACCESS_KEY_PATH'' # Exists (fst (get_access_key_path w)) # rest)
   \<and> (\<forall>p. Exists p \<in> set (snd (snd (load_access_key L w c)))
           \<or> ReadText p \<in> set (snd (snd (load_access_key L w c))) \<longrightarrow>
         p = fst (get_access_key_path w))
   \<and> (environ w' ''CHAT_ACCESS_KEY_PATH'' = environ w ''CHAT_ACCESS_KEY_PATH'' \<longrightarrow>
         fst (get_access_key_path w') = fst (get_access_key_path w))
   \<and> snd (snd (load_access_key L w (Some v))) = []
   \<and> ((\<forall>w \<in> set ws. environ w ''CHAT_ACCESS_KEY_PATH'' = x) \<longrightarrow>
       (\<forall>out \<in> set (fst (run L c (map (\<lambda>w. (w, CallLoad)) ws))).
          \<forall>p. Exists p \<in> set (snd out) \<or> ReadText p \<in> set (snd out) \<longrightarrow>
            p = (case x of None \<Rightarrow> Path ''access_key.json''
                 | Some q \<Rightarrow> if q = [] then Path ''access_key.json'' else Path q)))"
proof -
  have a: "\<exists>rest. snd (snd (load_access_key L w None)) =
       Getenv ''CHAT_ACCESS_KEY_PATH'' # Exists (fst (get_access_key_path w)) # rest"
    using body_events_start[of L w] by (simp add: load_miss)
  have b: "\<forall>p. Exists p \<in> set (snd (snd (load_access_key L w c)))
           \<or> ReadText p \<in> set (snd (snd (load_access_key L w c))) \<longrightarrow>
         p = fst (get_access_key_path w)"
    using load_events_paths[of _ L w c] by blast
  have d: "environ w' ''CHAT_ACCESS_KEY_PATH'' = environ w ''CHAT_ACCESS_KEY_PATH'' \<longrightarrow>
         fst (get_access_key_path w') = fst (get_access_key_path w)"
    by (simp add: resolved_path)
  have e: "snd (snd (load_access_key L w (Some v))) = []"
    by (simp add: load_hit)
  have f: "(\<forall>w \<in> set ws. environ w ''CHAT_ACCESS_KEY_PATH'' = x) \<longrightarrow>
       (\<forall>out \<in> set (fst (run L c (map (\<lambda>w. (w, CallLoad)) ws))).
          \<forall>p. Exists p \<in> set (snd out) \<or> ReadText p \<in> set (snd out) \<longrightarrow>
            p = (case x of None \<Rightarrow> Path ''access_key.json''
                 | Some q \<Rightarrow> if q = [] then Path ''access_key.json'' else Path q))"
  proof (intro impI ballI allI)
    fix out p
    assume env: "\<forall>w \<in> set ws. environ w ''CHAT_ACCESS_KEY_PATH'' = x"
      and out: "out \<in> set (fst (run L c (map (\<lambda>w. (w, CallLoad)) ws)))"
      and ev: "Exists p \<in> set (snd out) \<or> ReadText p \<in> set (snd out)"
    from env have "\<forall>w \<in> set ws. fst (get_access_key_path w) =
        (case x of None \<Rightarrow> Path ''access_key.json''
         | Some q \<Rightarrow> if q = [] then Path ''access_key.json'' else Path q)"
      by (simp add: resolved_path)
    from this out ev show "p = (case x of None \<Rightarrow> Path ''access_key.json''
         | Some q \<Rightarrow> if q = [] then Path ''access_key.json'' else Path q)"
      by (rule run_loads_paths)
  qed
  from a b d e f show ?thesis
    by blast
qed

theorem path_resolved_per_load_witness:
  \<open>run (\<lambda>text. if text = ''{"access_key": "abc"}''
                then Inr (PyDict [(''access_key'', PyStr ''abc'')]) else Inl JSONDecodeError)
       None
       (map (\<lambda>w. (w, CallLoad))
         [\<lparr>environ = [''CHAT_ACCESS_KEY_PATH'' \<mapsto> ''a.json''], files = Map.empty\<rparr>,
          \<lparr>environ = [''CHAT_ACCESS_KEY_PATH'' \<mapsto> ''a.json''],
            files = [Path ''a.json'' \<mapsto> TextFile ''{"access_key": "abc"}'']\<rparr>])
    = ([(Loaded (Inl (HTTPException 500 ''Access key file not found on the server.'')),
         [Getenv ''CHAT_ACCESS_KEY_PATH'', Exists (Path ''a.json'')]),
        (Loaded (Inr (PyStr ''abc'')),
         [Getenv ''CHAT_ACCESS_KEY_PATH'', Exists (Path ''a.json''),
          ReadText (Path ''a.json''), JsonLoads ''{"access_key": "abc"}''])],
       Some (PyStr ''abc''))
   \<and> fst (get_access_key_path
          \<lparr>environ = [''CHAT_ACCESS_KEY_PATH'' \<mapsto> ''a.json''],
            files = [Path ''a.json'' \<mapsto> TextFile ''{"access_key": "abc"}'']\<rparr>)
     = fst (get_access_key_path
          \<lparr>environ = [''CHAT_ACCESS_KEY_PATH'' \<mapsto> ''a.json''], files = Map.empty\<rparr>)\<close>
  using path_resolved_per_load
    [where L = \<open>\<lambda>text. if text = ''{"access_key": "abc"}''
                then Inr (PyDict [(''access_key'', PyStr ''abc'')]) else Inl JSONDecodeError\<close>
       and w = \<open>\<lparr>environ = [''CHAT_ACCESS_KEY_PATH'' \<mapsto> ''a.json''], files = Map.empty\<rparr>\<close>
       and w' = \<open>\<lparr>environ = [''CHAT_ACCESS_KEY_PATH'' \<mapsto> ''a.json''],
                  files = [Path ''a.json'' \<mapsto> TextFile ''{"access_key": "abc"}'']\<rparr>\<close>
       and c = None and v = PyNone
       and x = \<open>Some ''a.json''\<close>
       and ws = \<open>[\<lparr>environ = [''CHAT_ACCESS_KEY_PATH'' \<mapsto> ''a.json''], files = Map.empty\<rparr>,
          \<lparr>environ = [''CHAT_ACCESS_KEY_PATH'' \<mapsto> ''a.json''],
            files = [Path ''a.json'' \<mapsto> TextFile ''{"access_key": "abc"}'']\<rparr>]\<close>]
  by (simp add: step_def load_miss body_absent body_text resolved_path)

end
